theory Spec2Isabelle
  imports Main "HOL-Library.Word"
begin

unbundle bit_operations_syntax

section \<open>PET Hi-Res Emulator board (pethre.c)\<close>

text \<open>
  A shallow embedding of \<^verbatim>\<open>src/vice/src/pet/pethre.c\<close>. The globals the file reads and
  writes (\<^verbatim>\<open>pethre_enabled\<close>, \<^verbatim>\<open>reg_E888\<close>, \<^verbatim>\<open>petmem_ramON\<close>, \<^verbatim>\<open>petres.ramsel9\<close>,
  \<^verbatim>\<open>petres.ramselA\<close>, \<^verbatim>\<open>crtc.regno\<close>, the CRTC's hi-res draw callback) are the fields of
  one state record that every operation takes and returns. Calls that leave the file
  (\<^verbatim>\<open>ramsel_changed\<close>, \<^verbatim>\<open>mon_out\<close>, \<^verbatim>\<open>log_error\<close>, \<^verbatim>\<open>printf\<close>) are recorded in the state
  or in the result, so that their number and their arguments can be stated.
\<close>

subsection \<open>Data model\<close>

type_synonym u8 = "8 word"
type_synonym u16 = "16 word"
type_synonym u32 = "32 word"

text \<open>An argument of a printf-style call, and one such call: the format and its arguments.\<close>

datatype fmt_arg = Int_arg int | Str_arg string

type_synonym fmt_call = "string \<times> fmt_arg list"

text \<open>
  The function pointers the CRTC can hold as its hi-res draw callback: this file's
  \<^verbatim>\<open>pethre_DRAW\<close>, or some other board's routine. \<^verbatim>\<open>NULL\<close> is \<open>None\<close>.
\<close>

datatype hires_draw = Pethre_DRAW | Other_DRAW

record hre_state =
  pethre_enabled :: int
  reg_E888 :: u8
  petmem_ramON :: int
  petres_ramsel9 :: int
  petres_ramselA :: int
  crtc_regno :: int
  crtc_hires_draw_callback :: "hires_draw option"
  ramsel_changed_calls :: nat
  mon_out_calls :: "fmt_call list"
  log_error_calls :: "fmt_call list"

subsection \<open>Collaborators outside the file\<close>

text \<open>
  Modelled from the spec: \<^verbatim>\<open>ramsel_changed()\<close> (petmem.c) is not under src/. The spec's
  \<^verbatim>\<open>notifyBankingChanged()\<close> takes no arguments and lets the memory subsystem re-derive
  its mapping from the banking flags; the model counts the calls and leaves the flags.
\<close>

definition ramsel_changed :: "hre_state \<Rightarrow> hre_state" where
  "ramsel_changed s = s\<lparr>ramsel_changed_calls := ramsel_changed_calls s + 1\<rparr>"

text \<open>
  Modelled from the spec: \<^verbatim>\<open>crtc_set_hires_draw_callback\<close> (crtc.c) is not under src/. The
  spec's \<^verbatim>\<open>setHiresDrawCallback(callbackOrNull)\<close> registers the given callback with the
  display controller, or deregisters it when given none.
\<close>

definition crtc_set_hires_draw_callback :: "hires_draw option \<Rightarrow> hre_state \<Rightarrow> hre_state" where
  "crtc_set_hires_draw_callback cb s = s\<lparr>crtc_hires_draw_callback := cb\<rparr>"

text \<open>\<^verbatim>\<open>mon_out\<close> and \<^verbatim>\<open>log_error\<close> append the call to the monitor output and to the log.\<close>

definition mon_out :: "string \<Rightarrow> fmt_arg list \<Rightarrow> hre_state \<Rightarrow> hre_state" where
  "mon_out fmt args s = s\<lparr>mon_out_calls := mon_out_calls s @ [(fmt, args)]\<rparr>"

definition log_error :: "string \<Rightarrow> fmt_arg list \<Rightarrow> hre_state \<Rightarrow> hre_state" where
  "log_error fmt args s = s\<lparr>log_error_calls := log_error_calls s @ [(fmt, args)]\<rparr>"

subsection \<open>Power-up and reset\<close>

definition pethre_powerup :: "hre_state \<Rightarrow> hre_state" where
  "pethre_powerup s = s\<lparr>reg_E888 := 0x0F, petmem_ramON := 0\<rparr>"

definition pethre_reset :: "hre_state \<Rightarrow> hre_state" where
  "pethre_reset s = s"

subsection \<open>The monitor's dump of the latch\<close>

definition e888_dump_fmt :: string where
  "e888_dump_fmt = ''e888 = %02x %sramON = %d'' @ [CHR 0x0A]"

definition e888_dump :: "hre_state \<Rightarrow> int \<times> hre_state" where
  "e888_dump st =
     (if pethre_enabled st \<noteq> 0 then
        let s = (if reg_E888 st \<noteq> 0x0F \<and> reg_E888 st \<noteq> 0x83
                 then ''(unusual value) '' else '''')
        in (0, mon_out e888_dump_fmt
                 [Int_arg (uint (reg_E888 st)), Str_arg s, Int_arg (petmem_ramON st)] st)
      else (-1, st))"

subsection \<open>I/O: the latch at E888 and the CRTC's screen-start register\<close>

definition CRTC_MA12 :: u8 where
  "CRTC_MA12 = 0x10"

definition crtc_store_hre :: "u16 \<Rightarrow> u8 \<Rightarrow> hre_state \<Rightarrow> hre_state" where
  "crtc_store_hre addr val s =
     (if pethre_enabled s \<noteq> 0 then
        if addr AND 0x0008 \<noteq> 0 then
          if val \<noteq> reg_E888 s then
            let s1 =
              (if val = 0x0F then
                 ramsel_changed
                   (s\<lparr>petmem_ramON := 0, petres_ramsel9 := 0, petres_ramselA := 0\<rparr>)
               else if val = 0x83 then
                 ramsel_changed
                   (s\<lparr>petmem_ramON := 1, petres_ramsel9 := 0, petres_ramselA := 0\<rparr>)
               else s)
            in s1\<lparr>reg_E888 := val\<rparr>
          else s
        else if addr AND 0x0001 \<noteq> 0 then
          if crtc_regno s = 0x0c then
            if val AND CRTC_MA12 \<noteq> 0 then crtc_set_hires_draw_callback None s
            else crtc_set_hires_draw_callback (Some Pethre_DRAW) s
          else s
        else s
      else s)"

subsection \<open>Raster drawing\<close>

definition MA_WIDTH :: int where
  "MA_WIDTH = 64"

definition MA_LO :: int where
  "MA_LO = MA_WIDTH - 1"

definition MA_HI :: int where
  "MA_HI = NOT MA_LO"

definition RA_SKIP :: int where
  "RA_SKIP = 7 * MA_WIDTH"

text \<open>
  The three loops of \<^verbatim>\<open>pethre_DRAW\<close> have one body: read the byte at \<^verbatim>\<open>screen_rel\<close>,
  store the table entry of its high nibble and then of its low nibble through \<^verbatim>\<open>pw\<close>,
  advance both pointers and the counter. \<^verbatim>\<open>mem_ram\<close> is the memory array, addressed by
  the offset from its start; the output buffer \<open>p\<close> is addressed in 32-bit units from the
  pointer the caller passed, \<open>pw\<close> being the index of the next unit. The table
  \<^verbatim>\<open>dwg_table\<close> (crtc-draw.c) is not under src/ and is a parameter. The loop returns the
  counter, both pointers and the buffer, as the code after it goes on with them.
\<close>

function draw_loop ::
  "u32 list \<Rightarrow> (int \<Rightarrow> u8) \<Rightarrow> int \<Rightarrow> int \<Rightarrow> int \<Rightarrow> nat \<Rightarrow> (nat \<Rightarrow> u32)
     \<Rightarrow> int \<times> int \<times> nat \<times> (nat \<Rightarrow> u32)" where
  "draw_loop dwg_table mem_ram i n screen_rel pw p =
     (if i < n then
        let d = uint (mem_ram screen_rel);
            p1 = p(pw := dwg_table ! nat (drop_bit 4 d));
            p2 = p1(pw + 1 := dwg_table ! nat (d AND 0x0f))
        in draw_loop dwg_table mem_ram (i + 1) n (screen_rel + 1) (pw + 2) p2
      else (i, screen_rel, pw, p))"
  by pat_completeness auto
termination
  by (relation "measure (\<lambda>(dwg_table, mem_ram, i, n, screen_rel, pw, p). nat (n - i))") auto

declare draw_loop.simps [simp del]

text \<open>The simple case: one loop from \<^verbatim>\<open>xstart\<close> to \<^verbatim>\<open>xend\<close>.\<close>

definition draw_simple ::
  "u32 list \<Rightarrow> (int \<Rightarrow> u8) \<Rightarrow> (nat \<Rightarrow> u32) \<Rightarrow> int \<Rightarrow> int \<Rightarrow> int \<Rightarrow> (nat \<Rightarrow> u32)" where
  "draw_simple dwg_table mem_ram p xstart xend screen_rel =
     (case draw_loop dwg_table mem_ram xstart xend screen_rel 0 p of
        (i, screen_rel', pw, p') \<Rightarrow> p')"

text \<open>
  The general case: \<^verbatim>\<open>width0\<close> bytes up to the end of the 64-byte block, a skip of
  \<^verbatim>\<open>RA_SKIP\<close> bytes, then the rest, the counter running on from the first loop.
\<close>

definition draw_general ::
  "u32 list \<Rightarrow> (int \<Rightarrow> u8) \<Rightarrow> (nat \<Rightarrow> u32) \<Rightarrow> int \<Rightarrow> int \<Rightarrow> int \<Rightarrow> (nat \<Rightarrow> u32)" where
  "draw_general dwg_table mem_ram p width ma_lo screen_rel =
     (let width0 = MA_WIDTH - ma_lo;
          width0 = (if width < width0 then width else width0)
      in case draw_loop dwg_table mem_ram 0 width0 screen_rel 0 p of
           (i, screen_rel1, pw1, p1) \<Rightarrow>
             (case draw_loop dwg_table mem_ram i width (screen_rel1 + RA_SKIP) pw1 p1 of
                (i2, screen_rel2, pw2, p2) \<Rightarrow> p2))"

definition screen_rel_fmt :: string where
  "screen_rel_fmt =
     ''screen_rel too large: scr_rel=%d, ymod8=%d, screen_rel=%04x, xstart=%d xend=%d''
       @ [CHR 0x0A]"

text \<open>
  C's \<^verbatim>\<open>int\<close> has 32 bits. The values of the model are of type \<open>int\<close>, and what C
  leaves undefined is written out: an argument or a difference that is no value of
  \<^verbatim>\<open>int\<close>, and a left shift of a negative value or one whose result is no value of
  \<^verbatim>\<open>int\<close>, give no result.
\<close>

definition c_int :: "int \<Rightarrow> bool" where
  "c_int x \<longleftrightarrow> - (2 ^ 31) \<le> x \<and> x < 2 ^ 31"

definition shl_int :: "int \<Rightarrow> nat \<Rightarrow> int option" where
  "shl_int x n = (if 0 \<le> x \<and> c_int (push_bit n x) then Some (push_bit n x) else None)"

definition sub_int :: "int \<Rightarrow> int \<Rightarrow> int option" where
  "sub_int a b = (if c_int (a - b) then Some (a - b) else None)"

text \<open>
  \<^verbatim>\<open>pethre_DRAW\<close> returns what it printed and the output buffer, or \<open>None\<close> where the C
  arithmetic is undefined. \<^verbatim>\<open>screen_rel\<close> is kept as the offset from \<^verbatim>\<open>mem_ram\<close>, so the
  pointer comparison with \<^verbatim>\<open>mem_ram + 0xE000\<close> is a comparison of offsets, and the
  difference \<^verbatim>\<open>screen_rel - mem_ram\<close> converted to \<^verbatim>\<open>unsigned int\<close> is the offset modulo
  \<open>2 ^ 32\<close>. The length of \<^verbatim>\<open>mem_ram\<close> (petmem.c) is not under src/: the memory is a
  function that gives the byte at every offset, and the output buffer is as long as the
  caller needs it.
\<close>

definition pethre_DRAW ::
  "u32 list \<Rightarrow> (int \<Rightarrow> u8) \<Rightarrow> (nat \<Rightarrow> u32) \<Rightarrow> int \<Rightarrow> int \<Rightarrow> int \<Rightarrow> int
     \<Rightarrow> (fmt_call list \<times> (nat \<Rightarrow> u32)) option" where
  "pethre_DRAW dwg_table mem_ram p xstart xend scr_rel ymod8 =
     (if \<not> (c_int xstart \<and> c_int xend \<and> c_int scr_rel \<and> c_int ymod8) then None
      else if ymod8 < 8 \<and> xstart < xend then
        let ma_hi = scr_rel AND MA_HI;
            ma_lo = scr_rel AND MA_LO
        in case shl_int ma_hi 3 of
             None \<Rightarrow> None
           | Some hi8 \<Rightarrow>
               (case shl_int ymod8 6 of
                  None \<Rightarrow> None
                | Some y64 \<Rightarrow>
                    (case sub_int xend xstart of
                       None \<Rightarrow> None
                     | Some width \<Rightarrow>
                         let screen_rel = 0x8000 + hi8 + y64 + ma_lo;
                             printed =
                               (if screen_rel \<ge> 0xE000 then
                                  [(screen_rel_fmt,
                                    [Int_arg scr_rel, Int_arg ymod8,
                                     Int_arg (screen_rel mod 2 ^ 32),
                                     Int_arg xstart, Int_arg xend])]
                                else [])
                         in if ma_lo = 0 \<and> width \<le> MA_WIDTH then
                              Some (printed,
                                    draw_simple dwg_table mem_ram p xstart xend screen_rel)
                            else
                              Some (printed,
                                    draw_general dwg_table mem_ram p width ma_lo screen_rel)))
      else Some ([], p))"

subsection \<open>Snapshot of the latch\<close>

text \<open>
  Modelled from the spec: the snapshot container (snapshot.c) is not under src/. A
  snapshot holds named records; a record has a major and a minor version and a body of
  16-bit fields. \<^verbatim>\<open>snapshot_module_open\<close> finds the record by its name or returns
  \<^verbatim>\<open>NULL\<close>; \<^verbatim>\<open>SMR_W\<close> reads the next 16-bit field into its argument, which it leaves as
  it was when the body has no field left.
\<close>

record snapshot_module =
  vmajor :: u8
  vminor :: u8
  body :: "u16 list"

type_synonym snapshot = "string \<Rightarrow> snapshot_module option"

definition snapshot_module_open :: "snapshot \<Rightarrow> string \<Rightarrow> snapshot_module option" where
  "snapshot_module_open s name = s name"

definition SMR_W :: "snapshot_module \<Rightarrow> u16 \<Rightarrow> u16" where
  "SMR_W m w = (case body m of [] \<Rightarrow> w | x # xs \<Rightarrow> x)"

definition module_ram_name :: string where
  "module_ram_name = ''HREMEM''"

definition HREMEM_DUMP_VER_MAJOR :: u8 where
  "HREMEM_DUMP_VER_MAJOR = 1"

definition version_error_fmt :: string where
  "version_error_fmt = ''Cannot load HRE RAM module with major version %d''"

definition pethre_ram_read_snapshot_module :: "snapshot \<Rightarrow> hre_state \<Rightarrow> int \<times> hre_state" where
  "pethre_ram_read_snapshot_module s st =
     (case snapshot_module_open s module_ram_name of
        None \<Rightarrow> (-1, st)
      | Some m \<Rightarrow>
          if vmajor m \<noteq> HREMEM_DUMP_VER_MAJOR then
            (-1, log_error version_error_fmt [Int_arg (uint (vmajor m))] st)
          else
            let w = SMR_W m 0x0F
            in (0, st\<lparr>reg_E888 := ucast w\<rparr>))"

definition pethre_snapshot_read_module :: "snapshot \<Rightarrow> hre_state \<Rightarrow> int \<times> hre_state" where
  "pethre_snapshot_read_module s st =
     (case pethre_ram_read_snapshot_module s st of
        (r, st') \<Rightarrow> if r < 0 then (0, st') else (0, st'))"

subsection \<open>What the drawing loops leave in the output buffer\<close>

text \<open>
  Two functions for stating what a loop has written. \<open>expanded dwg_table mem_ram a k\<close> is
  the \<open>k\<close>-th 32-bit unit of the expansion of the bytes from offset \<open>a\<close> on: unit \<open>2 * j\<close>
  is the table entry of the high nibble of byte \<open>a + j\<close>, unit \<open>2 * j + 1\<close> that of its
  low nibble. \<open>source_offset screen_rel ma_lo j\<close> is the offset of the \<open>j\<close>-th byte of a
  segment that starts at \<open>screen_rel\<close>, \<open>ma_lo\<close> bytes into its 64-byte block: bytes
  beyond the end of the block lie 448 bytes further.
\<close>

definition expanded :: "u32 list \<Rightarrow> (int \<Rightarrow> u8) \<Rightarrow> int \<Rightarrow> nat \<Rightarrow> u32" where
  "expanded dwg_table mem_ram a k =
     (let d = uint (mem_ram (a + int (k div 2)))
      in if even k then dwg_table ! nat (drop_bit 4 d) else dwg_table ! nat (d AND 0x0f))"




subsection \<open>Concrete inputs\<close>

text \<open>
  A machine right after power-up with the board enabled and the CRTC's register 12
  selected; a table with sixteen distinct entries; a memory that is zero everywhere but
  for one byte 0xFF; snapshots with and without the board's record.
\<close>

definition powered_up :: hre_state where
  "powered_up =
     \<lparr>pethre_enabled = 1, reg_E888 = 0x0F, petmem_ramON = 0, petres_ramsel9 = 0,
      petres_ramselA = 0, crtc_regno = 0x0c, crtc_hires_draw_callback = None,
      ramsel_changed_calls = 0, mon_out_calls = [], log_error_calls = []\<rparr>"

definition nibble_table :: "u32 list" where
  "nibble_table = [0, 1, 2, 3, 4, 5, 6, 7, 8, 9, 10, 11, 12, 13, 14, 15]"

definition marked_ram :: "int \<Rightarrow> int \<Rightarrow> u8" where
  "marked_ram a = (\<lambda>x. if x = a then 0xFF else 0)"

definition snapshot_with :: "snapshot_module \<Rightarrow> snapshot" where
  "snapshot_with m = (\<lambda>name. if name = ''HREMEM'' then Some m else None)"

definition snapshot_without :: snapshot where
  "snapshot_without = (\<lambda>name. None)"

section \<open>Properties\<close>

subsection \<open>Power-up and reset\<close>

text \<open>
  C9: after power-up the latch register is 0x0F and the RAM-on flag is false; a reset
  changes no state of the board at all, so whatever value the latch was set to, it still
  has after the reset.
\<close>

theorem powerup_sets_reset_keeps:
  "reg_E888 (pethre_powerup s) = 0x0F \<and> petmem_ramON (pethre_powerup s) = 0
   \<and> pethre_reset s = s
   \<and> reg_E888 (pethre_reset (s\<lparr>reg_E888 := v\<rparr>)) = v"
  by (simp add: pethre_powerup_def pethre_reset_def)


subsection \<open>The drawing loops\<close>

lemma draw_loop_done:
  "\<not> i < n \<Longrightarrow> draw_loop dwg mem i n sr pw p = (i, sr, pw, p)"
  by (simp add: draw_loop.simps)

lemma expanded_shift:
  "pw + 2 \<le> k \<Longrightarrow> expanded dwg mem (sr + 1) (k - (pw + 2)) = expanded dwg mem sr (k - pw)"
proof -
  assume h: "pw + 2 \<le> k"
  then obtain m where m: "k = pw + 2 + m" using le_Suc_ex by blast
  have d: "(2 + m) div 2 = Suc (m div 2)" by simp
  have e: "even (2 + m) = even m" by simp
  show ?thesis unfolding m by (simp add: expanded_def d ac_simps)
qed

lemma draw_loop_result:
  "i \<le> n \<Longrightarrow>
   draw_loop dwg mem i n sr pw p =
     (n, sr + (n - i), pw + 2 * nat (n - i),
      \<lambda>k. if pw \<le> k \<and> k < pw + 2 * nat (n - i) then expanded dwg mem sr (k - pw) else p k)"
proof (induction dwg mem i n sr pw p rule: draw_loop.induct)
  case (1 dwg mem i n sr pw p)
  show ?case
  proof (cases "i < n")
    case False
    with "1.prems" have "i = n" by simp
    then show ?thesis by (auto simp add: draw_loop.simps fun_eq_iff)
  next
    case True
    let ?d = "uint (mem sr)"
    let ?p2 = "(p(pw := dwg ! nat (drop_bit 4 ?d)))(pw + 1 := dwg ! nat (?d AND 0x0f))"
    have step: "draw_loop dwg mem i n sr pw p = draw_loop dwg mem (i + 1) n (sr + 1) (pw + 2) ?p2"
      using True by (subst draw_loop.simps) (simp add: Let_def)
    have "i + 1 \<le> n" using True by simp
    from "1.IH" [OF True refl refl refl this]
    have ih: "draw_loop dwg mem (i + 1) n (sr + 1) (pw + 2) ?p2 =
       (n, sr + 1 + (n - (i + 1)), pw + 2 + 2 * nat (n - (i + 1)),
        \<lambda>k. if pw + 2 \<le> k \<and> k < pw + 2 + 2 * nat (n - (i + 1))
             then expanded dwg mem (sr + 1) (k - (pw + 2)) else ?p2 k)" .
    have cnt: "nat (n - i) = Suc (nat (n - (i + 1)))" using True by simp
    have e0: "expanded dwg mem sr 0 = dwg ! nat (drop_bit 4 ?d)"
      by (simp add: expanded_def)
    have e1: "expanded dwg mem sr (Suc 0) = dwg ! nat (?d AND 0x0f)"
      by (simp add: expanded_def)
    have fn: "(\<lambda>k. if pw + 2 \<le> k \<and> k < pw + 2 + 2 * nat (n - (i + 1))
             then expanded dwg mem (sr + 1) (k - (pw + 2)) else ?p2 k)
         = (\<lambda>k. if pw \<le> k \<and> k < pw + 2 * nat (n - i) then expanded dwg mem sr (k - pw) else p k)"
    proof (rule ext)
      fix k
      consider "k < pw" | "k = pw" | "k = pw + 1" | "pw + 2 \<le> k" by linarith
      then show "(if pw + 2 \<le> k \<and> k < pw + 2 + 2 * nat (n - (i + 1))
             then expanded dwg mem (sr + 1) (k - (pw + 2)) else ?p2 k)
         = (if pw \<le> k \<and> k < pw + 2 * nat (n - i) then expanded dwg mem sr (k - pw) else p k)"
      proof cases
        case 1 then show ?thesis by simp
      next
        case 2 then show ?thesis by (simp add: cnt e0)
      next
        case 3 then show ?thesis by (simp add: cnt e1)
      next
        case 4 then show ?thesis using expanded_shift [OF 4, of dwg mem sr]
          by (simp add: cnt)
      qed
    qed
    show ?thesis unfolding step ih fn using True by (simp add: cnt)
  qed
qed








text \<open>
  Beyond those bounds the shift overflows: a screen-relative address of \<open>2 ^ 28\<close> has no
  defined result.
\<close>

lemma pethre_DRAW_shift_overflow:
  "pethre_DRAW dwg mem p 0 1 0x10000000 0 = None"
  by (simp add: pethre_DRAW_def shl_int_def c_int_def MA_HI_def MA_LO_def MA_WIDTH_def)

subsection \<open>The raster translator\<close>







text \<open>
  C6: when the segment starts on a 64-byte block (\<open>lowPart\<close> is 0) and is at most 64
  bytes wide, the simple path and the general path, with its split at
  \<open>width0 = min width (64 - lowPart)\<close> and its skip of \<open>7 * 64\<close> bytes, leave the same
  output buffer.
\<close>

theorem simple_path_equals_general_path:
  assumes "ma_lo = 0" and "width = xend - xstart" and "width \<le> MA_WIDTH"
  shows "draw_simple dwg mem p xstart xend sr = draw_general dwg mem p width ma_lo sr"
proof -
  have w0: "(if width < MA_WIDTH - ma_lo then width else MA_WIDTH - ma_lo) = width"
    using assms by simp
  show ?thesis
  proof (cases "0 \<le> width")
    case True
    have a: "draw_simple dwg mem p xstart xend sr =
       (\<lambda>k. if k < 2 * nat width then expanded dwg mem sr k else p k)"
      using True assms(2) by (simp add: draw_simple_def draw_loop_result fun_eq_iff)
    have b: "draw_general dwg mem p width ma_lo sr =
       (\<lambda>k. if k < 2 * nat width then expanded dwg mem sr k else p k)"
      unfolding draw_general_def Let_def w0 using True
      by (simp add: draw_loop_result draw_loop_done fun_eq_iff)
    show ?thesis by (simp only: a b)
  next
    case False
    have a: "draw_simple dwg mem p xstart xend sr = p"
      using False assms(2) by (simp add: draw_simple_def draw_loop_done)
    have b: "draw_general dwg mem p width ma_lo sr = p"
      unfolding draw_general_def Let_def w0 using False
      by (simp add: draw_loop_done)
    show ?thesis by (simp only: a b)
  qed
qed

theorem simple_path_equals_general_path_witness:
  "(0::int) = 0 \<and> (2::int) = 5 - 3 \<and> (2::int) \<le> MA_WIDTH
   \<and> draw_simple nibble_table (marked_ram 0xA001) (\<lambda>k. 0) 3 5 0xA000
     = draw_general nibble_table (marked_ram 0xA001) (\<lambda>k. 0) 2 0 0xA000
   \<and> draw_general nibble_table (marked_ram 0xA001) (\<lambda>k. 0) 2 0 0xA000 1 = 0
   \<and> draw_general nibble_table (marked_ram 0xA001) (\<lambda>k. 0) 2 0 0xA000 2 = 15"
  using simple_path_equals_general_path
          [of 0 2 5 3 nibble_table "marked_ram 0xA001" "\<lambda>k. 0" "0xA000"]
  by (simp add: draw_general_def draw_loop.simps MA_WIDTH_def RA_SKIP_def nibble_table_def
      marked_ram_def Let_def)

subsection \<open>The latch\<close>

text \<open>
  C3, the claim as stated fails when the value written is the value the latch already
  holds: such a write changes nothing, so the flags are not brought to the values the
  claim gives. The machine is powered up, 0x83 is written to the latch (RAM-on becomes
  1), a snapshot whose record holds 0x0F is read (the latch becomes 0x0F, RAM-on stays),
  and 0x0F is written to the latch: RAM-on is still 1.
\<close>

theorem repeated_latch_write_keeps_flags:
  "pethre_enabled
     (snd (pethre_snapshot_read_module
             (snapshot_with \<lparr>vmajor = 1, vminor = 0, body = [0x0F]\<rparr>)
             (crtc_store_hre 0xE888 0x83 powered_up))) \<noteq> 0
   \<and> (0xE888 :: u16) AND 0x0008 \<noteq> 0
   \<and> reg_E888
       (snd (pethre_snapshot_read_module
               (snapshot_with \<lparr>vmajor = 1, vminor = 0, body = [0x0F]\<rparr>)
               (crtc_store_hre 0xE888 0x83 powered_up))) = 0x0F
   \<and> petmem_ramON
       (crtc_store_hre 0xE888 0x0F
          (snd (pethre_snapshot_read_module
                  (snapshot_with \<lparr>vmajor = 1, vminor = 0, body = [0x0F]\<rparr>)
                  (crtc_store_hre 0xE888 0x83 powered_up)))) = 1"
  by (simp add: crtc_store_hre_def ramsel_changed_def powered_up_def
      pethre_snapshot_read_module_def pethre_ram_read_snapshot_module_def
      snapshot_module_open_def snapshot_with_def SMR_W_def module_ram_name_def
      HREMEM_DUMP_VER_MAJOR_def Let_def)

text \<open>
  C3, amended: for every write of 0x0F to the latch (board enabled, address bit 3 set)
  while the latch holds another value, afterwards RAM-on is false, both RAM-select
  overrides are false, the latch is 0x0F and exactly one banking-change notification has
  been issued; for 0x83 the same with RAM-on true. When the latch already holds the
  value written, the write changes nothing: no notification, and the flags keep the
  values they had.
\<close>

theorem latch_write_known_value:
  assumes "pethre_enabled s \<noteq> 0" and "addr AND 0x0008 \<noteq> 0" and "val = 0x0F \<or> val = 0x83"
  shows "(reg_E888 s \<noteq> val \<longrightarrow>
            petmem_ramON (crtc_store_hre addr val s) = (if val = 0x0F then 0 else 1)
            \<and> petres_ramsel9 (crtc_store_hre addr val s) = 0
            \<and> petres_ramselA (crtc_store_hre addr val s) = 0
            \<and> reg_E888 (crtc_store_hre addr val s) = val
            \<and> ramsel_changed_calls (crtc_store_hre addr val s) = ramsel_changed_calls s + 1)
         \<and> (reg_E888 s = val \<longrightarrow> crtc_store_hre addr val s = s)"
  using assms by (auto simp add: crtc_store_hre_def ramsel_changed_def Let_def)

theorem latch_write_known_value_witness:
  "pethre_enabled powered_up \<noteq> 0 \<and> (0xE888 :: u16) AND 0x0008 \<noteq> 0
   \<and> reg_E888 powered_up \<noteq> 0x83 \<and> reg_E888 powered_up = 0x0F
   \<and> petmem_ramON (crtc_store_hre 0xE888 0x83 powered_up) = 1
   \<and> petres_ramsel9 (crtc_store_hre 0xE888 0x83 powered_up) = 0
   \<and> petres_ramselA (crtc_store_hre 0xE888 0x83 powered_up) = 0
   \<and> reg_E888 (crtc_store_hre 0xE888 0x83 powered_up) = 0x83
   \<and> ramsel_changed_calls (crtc_store_hre 0xE888 0x83 powered_up) = 1
   \<and> crtc_store_hre 0xE888 0x0F powered_up = powered_up"
  using latch_write_known_value [of powered_up "0xE888" "0x83"]
        latch_write_known_value [of powered_up "0xE888" "0x0F"]
  by (simp add: powered_up_def)

text \<open>
  C4: for every write to the latch (board enabled, address bit 3 set) of a value other
  than 0x0F and 0x83, afterwards the latch holds the value written and nothing else of
  the state has changed: no notification, no banking flag, no error logged; and the
  monitor's dump of the latch then succeeds and prints the value with the annotation
  \<open>(unusual value)\<close>.
\<close>

theorem latch_write_unusual_value:
  assumes "pethre_enabled s \<noteq> 0" and "addr AND 0x0008 \<noteq> 0"
    and "val \<noteq> 0x0F" and "val \<noteq> 0x83"
  shows "crtc_store_hre addr val s = s\<lparr>reg_E888 := val\<rparr>
         \<and> e888_dump (crtc_store_hre addr val s) =
             (0, mon_out e888_dump_fmt
                   [Int_arg (uint val), Str_arg ''(unusual value) '', Int_arg (petmem_ramON s)]
                   (crtc_store_hre addr val s))"
  using assms by (simp add: crtc_store_hre_def e888_dump_def Let_def)

theorem latch_write_unusual_value_witness:
  "pethre_enabled powered_up \<noteq> 0 \<and> (0xE888 :: u16) AND 0x0008 \<noteq> 0
   \<and> (0x42 :: u8) \<noteq> 0x0F \<and> (0x42 :: u8) \<noteq> 0x83
   \<and> crtc_store_hre 0xE888 0x42 powered_up = powered_up\<lparr>reg_E888 := 0x42\<rparr>
   \<and> mon_out_calls (snd (e888_dump (crtc_store_hre 0xE888 0x42 powered_up))) =
       [(e888_dump_fmt, [Int_arg 0x42, Str_arg ''(unusual value) '', Int_arg 0])]"
  using latch_write_unusual_value [of powered_up "0xE888" "0x42"]
  by (auto simp add: powered_up_def mon_out_def)

subsection \<open>The hi-res gate\<close>

text \<open>
  C5: for every write to the CRTC's data register (board enabled, address bit 3 clear,
  address bit 0 set) while register 12 is selected, the draw callback afterwards is none
  if bit 4 of the value is set and the raster translator if it is clear, whatever the
  callback was before; nothing else of the state changes.
\<close>

theorem start_address_write_sets_callback:
  assumes "pethre_enabled s \<noteq> 0" and "addr AND 0x0008 = 0" and "addr AND 0x0001 \<noteq> 0"
    and "crtc_regno s = 0x0c"
  shows "crtc_store_hre addr val s =
           s\<lparr>crtc_hires_draw_callback :=
                (if val AND 0x10 \<noteq> 0 then None else Some Pethre_DRAW)\<rparr>"
  using assms
  by (simp add: crtc_store_hre_def crtc_set_hires_draw_callback_def CRTC_MA12_def)

theorem start_address_write_sets_callback_witness:
  "pethre_enabled (powered_up\<lparr>crtc_hires_draw_callback := Some Other_DRAW\<rparr>) \<noteq> 0
   \<and> (0xE881 :: u16) AND 0x0008 = 0 \<and> (0xE881 :: u16) AND 0x0001 \<noteq> 0
   \<and> crtc_regno (powered_up\<lparr>crtc_hires_draw_callback := Some Other_DRAW\<rparr>) = 0x0c
   \<and> crtc_hires_draw_callback
       (crtc_store_hre 0xE881 0x02 (powered_up\<lparr>crtc_hires_draw_callback := Some Other_DRAW\<rparr>))
       = Some Pethre_DRAW
   \<and> crtc_hires_draw_callback
       (crtc_store_hre 0xE881 0x12 (powered_up\<lparr>crtc_hires_draw_callback := Some Other_DRAW\<rparr>))
       = None"
  using start_address_write_sets_callback
          [of "powered_up\<lparr>crtc_hires_draw_callback := Some Other_DRAW\<rparr>" "0xE881" "0x02"]
        start_address_write_sets_callback
          [of "powered_up\<lparr>crtc_hires_draw_callback := Some Other_DRAW\<rparr>" "0xE881" "0x12"]
  by (simp add: powered_up_def)

text \<open>
  C10: a write whose address has bit 3 set, with the board enabled, never changes the
  draw callback, and what it does is the same for every such address, with bit 0 set or
  clear; the draw callback changes only by a write whose address has bit 3 clear and
  bit 0 set (with the board enabled and register 12 selected).
\<close>

theorem latch_address_never_sets_callback:
  "(pethre_enabled s \<noteq> 0 \<and> addr AND 0x0008 \<noteq> 0 \<longrightarrow>
      crtc_hires_draw_callback (crtc_store_hre addr val s) = crtc_hires_draw_callback s
      \<and> (\<forall>addr'. addr' AND 0x0008 \<noteq> 0 \<longrightarrow>
            crtc_store_hre addr val s = crtc_store_hre addr' val s))
   \<and> (crtc_hires_draw_callback (crtc_store_hre addr val s) \<noteq> crtc_hires_draw_callback s \<longrightarrow>
        pethre_enabled s \<noteq> 0 \<and> addr AND 0x0008 = 0 \<and> addr AND 0x0001 \<noteq> 0
        \<and> crtc_regno s = 0x0c)"
  by (simp add: crtc_store_hre_def crtc_set_hires_draw_callback_def ramsel_changed_def Let_def)

theorem latch_address_never_sets_callback_witness:
  "pethre_enabled powered_up \<noteq> 0 \<and> (0xE889 :: u16) AND 0x0008 \<noteq> 0
   \<and> (0xE889 :: u16) AND 0x0001 \<noteq> 0 \<and> (0xE888 :: u16) AND 0x0008 \<noteq> 0
   \<and> crtc_hires_draw_callback (crtc_store_hre 0xE889 0x02 powered_up) = None
   \<and> crtc_store_hre 0xE889 0x02 powered_up = crtc_store_hre 0xE888 0x02 powered_up
   \<and> crtc_hires_draw_callback (crtc_store_hre 0xE881 0x02 powered_up)
       \<noteq> crtc_hires_draw_callback powered_up
   \<and> (0xE881 :: u16) AND 0x0008 = 0 \<and> (0xE881 :: u16) AND 0x0001 \<noteq> 0"
  using latch_address_never_sets_callback [of powered_up "0xE889" "0x02"]
        latch_address_never_sets_callback [of powered_up "0xE881" "0x02"]
  by (simp add: powered_up_def crtc_store_hre_def crtc_set_hires_draw_callback_def
      CRTC_MA12_def)

subsection \<open>Snapshots\<close>

text \<open>
  What reading the board's record does, for a record that is present: with a major
  version other than 1 the result is -1, the error naming the version is logged and the
  latch is left as it was; with major version 1 the result is 0 and the latch becomes the
  record's 16-bit field narrowed to 8 bits, or 0x0F when the record has no field.
\<close>

lemma pethre_ram_read_snapshot_module_present:
  assumes "snapshot_module_open s module_ram_name = Some m"
  shows "pethre_ram_read_snapshot_module s st =
           (if vmajor m \<noteq> 1
            then (-1, log_error version_error_fmt [Int_arg (uint (vmajor m))] st)
            else (0, st\<lparr>reg_E888 := ucast (case body m of [] \<Rightarrow> 0x0F | w # ws \<Rightarrow> w)\<rparr>))"
  using assms
  by (simp add: pethre_ram_read_snapshot_module_def HREMEM_DUMP_VER_MAJOR_def SMR_W_def
      Let_def)

text \<open>
  The public entry point returns 0 whatever the reading of the record returned.
\<close>

lemma pethre_snapshot_read_module_returns_0:
  "fst (pethre_snapshot_read_module s st) = 0"
  by (simp add: pethre_snapshot_read_module_def split: prod.splits)

text \<open>
  C7, the claim as stated fails: a snapshot read does not fail on a record of another
  major version. The machine is powered up and a snapshot whose record has major version
  2 is read: reading the record returns -1, and the snapshot read operation
  \<^verbatim>\<open>pethre_snapshot_read_module\<close> returns 0.
\<close>

theorem snapshot_read_of_version_2_returns_0:
  "snapshot_module_open (snapshot_with \<lparr>vmajor = 2, vminor = 0, body = [0x0083]\<rparr>)
     module_ram_name = Some \<lparr>vmajor = 2, vminor = 0, body = [0x0083]\<rparr>
   \<and> fst (pethre_ram_read_snapshot_module
            (snapshot_with \<lparr>vmajor = 2, vminor = 0, body = [0x0083]\<rparr>) powered_up) = - 1
   \<and> fst (pethre_snapshot_read_module
            (snapshot_with \<lparr>vmajor = 2, vminor = 0, body = [0x0083]\<rparr>) powered_up) = 0
   \<and> \<not> fst (pethre_snapshot_read_module
            (snapshot_with \<lparr>vmajor = 2, vminor = 0, body = [0x0083]\<rparr>) powered_up) < 0"
  by (simp add: pethre_snapshot_read_module_def pethre_ram_read_snapshot_module_def
      snapshot_module_open_def snapshot_with_def module_ram_name_def
      HREMEM_DUMP_VER_MAJOR_def log_error_def powered_up_def)

text \<open>
  C7, amended: when the snapshot holds the board's record with a major version other
  than 1, reading the record fails (-1), and the snapshot read operation returns 0, logs
  the error naming the version and leaves the latch, and all other state, as it was; when
  the major version is 1, the snapshot read operation returns 0 and changes only the
  latch, which becomes the record's 16-bit field narrowed to 8 bits.
\<close>

theorem snapshot_read_version_check:
  assumes "snapshot_module_open s module_ram_name = Some m"
  shows "(vmajor m \<noteq> 1 \<longrightarrow>
            fst (pethre_ram_read_snapshot_module s st) = - 1
            \<and> pethre_snapshot_read_module s st =
                (0, st\<lparr>log_error_calls := log_error_calls st
                          @ [(version_error_fmt, [Int_arg (uint (vmajor m))])]\<rparr>)
            \<and> reg_E888 (snd (pethre_snapshot_read_module s st)) = reg_E888 st)
         \<and> (vmajor m = 1 \<longrightarrow>
              (\<forall>w ws. body m = w # ws \<longrightarrow>
                 pethre_snapshot_read_module s st = (0, st\<lparr>reg_E888 := ucast w\<rparr>)))"
  using assms
  by (simp add: pethre_snapshot_read_module_def pethre_ram_read_snapshot_module_def
      HREMEM_DUMP_VER_MAJOR_def log_error_def SMR_W_def Let_def)

theorem snapshot_read_version_check_witness:
  "snapshot_module_open (snapshot_with \<lparr>vmajor = 2, vminor = 0, body = [0x0083]\<rparr>)
     module_ram_name = Some \<lparr>vmajor = 2, vminor = 0, body = [0x0083]\<rparr>
   \<and> snapshot_module_open (snapshot_with \<lparr>vmajor = 1, vminor = 0, body = [0x0183]\<rparr>)
     module_ram_name = Some \<lparr>vmajor = 1, vminor = 0, body = [0x0183]\<rparr>
   \<and> (2 :: u8) \<noteq> 1
   \<and> fst (pethre_ram_read_snapshot_module
            (snapshot_with \<lparr>vmajor = 2, vminor = 0, body = [0x0083]\<rparr>) powered_up) = - 1
   \<and> fst (pethre_snapshot_read_module
            (snapshot_with \<lparr>vmajor = 2, vminor = 0, body = [0x0083]\<rparr>) powered_up) = 0
   \<and> reg_E888 (snd (pethre_snapshot_read_module
            (snapshot_with \<lparr>vmajor = 2, vminor = 0, body = [0x0083]\<rparr>) powered_up)) = 0x0F
   \<and> log_error_calls (snd (pethre_snapshot_read_module
            (snapshot_with \<lparr>vmajor = 2, vminor = 0, body = [0x0083]\<rparr>) powered_up))
       = [(version_error_fmt, [Int_arg 2])]
   \<and> pethre_snapshot_read_module
       (snapshot_with \<lparr>vmajor = 1, vminor = 0, body = [0x0183]\<rparr>) powered_up
       = (0, powered_up\<lparr>reg_E888 := 0x83\<rparr>)"
  using snapshot_read_version_check
          [of "snapshot_with \<lparr>vmajor = 2, vminor = 0, body = [0x0083]\<rparr>"
              "\<lparr>vmajor = 2, vminor = 0, body = [0x0083]\<rparr>" powered_up]
        snapshot_read_version_check
          [of "snapshot_with \<lparr>vmajor = 1, vminor = 0, body = [0x0183]\<rparr>"
              "\<lparr>vmajor = 1, vminor = 0, body = [0x0183]\<rparr>" powered_up]
  by (simp add: snapshot_module_open_def snapshot_with_def module_ram_name_def powered_up_def)

text \<open>
  C8, the claim as stated fails: with the record absent the latch is not set to 0x0F,
  it is left as it was. The machine is powered up, 0x83 is written to the latch, and a
  snapshot without the record is read: the read returns 0 and the latch is still 0x83.
\<close>

theorem absent_record_latch_not_default:
  "snapshot_module_open snapshot_without module_ram_name = None
   \<and> fst (pethre_snapshot_read_module snapshot_without
            (crtc_store_hre 0xE888 0x83 powered_up)) = 0
   \<and> reg_E888 (snd (pethre_snapshot_read_module snapshot_without
            (crtc_store_hre 0xE888 0x83 powered_up))) = 0x83
   \<and> reg_E888 (snd (pethre_snapshot_read_module snapshot_without
            (crtc_store_hre 0xE888 0x83 powered_up))) \<noteq> 0x0F"
  by (simp add: crtc_store_hre_def ramsel_changed_def powered_up_def
      pethre_snapshot_read_module_def pethre_ram_read_snapshot_module_def
      snapshot_module_open_def snapshot_without_def Let_def)

text \<open>
  C8, amended: when the snapshot does not hold the board's record, the public snapshot
  read succeeds (it returns 0) and leaves the latch, and all other state, as it was; the
  latch is 0x0F afterwards only if it was before, as it is right after power-up.
\<close>

theorem absent_record_read_succeeds_keeps_state:
  assumes "snapshot_module_open s module_ram_name = None"
  shows "pethre_snapshot_read_module s st = (0, st)"
  using assms
  by (simp add: pethre_snapshot_read_module_def pethre_ram_read_snapshot_module_def)

theorem absent_record_read_succeeds_keeps_state_witness:
  "snapshot_module_open snapshot_without module_ram_name = None
   \<and> pethre_snapshot_read_module snapshot_without (pethre_powerup powered_up)
       = (0, pethre_powerup powered_up)
   \<and> reg_E888 (snd (pethre_snapshot_read_module snapshot_without (pethre_powerup powered_up)))
       = 0x0F"
  using absent_record_read_succeeds_keeps_state [of snapshot_without "pethre_powerup powered_up"]
  by (simp add: snapshot_module_open_def snapshot_without_def pethre_powerup_def)

end
